theory Spec2Isabelle
  imports Main "HOL-Library.Monad_Syntax"
begin

unbundle bit_operations_syntax

section \<open>Characters and C strings\<close>

text \<open>
  The library is a single C header (simple\_ini\_reader.h). Its text buffer
  \<^verbatim>\<open>ini->data\<close> is a byte array that the parser mutates in place; a
  \<^verbatim>\<open>char *\<close> into it is modelled by an index into a \<open>char list\<close>.
  A C string handed to or returned by the interface is modelled by the list of
  its characters before the terminating NUL, and \<^verbatim>\<open>const char *\<close> that
  may be null by \<open>string option\<close>.
\<close>

definition NUL :: char where
  "NUL = CHR 0x00"

definition newline :: char where
  "newline = CHR 0x0A"

definition dquote :: char where
  "dquote = CHR 0x22"

text \<open>
  The test \<^verbatim>\<open>*str <= ' '\<close> on a plain \<^verbatim>\<open>char\<close>. Plain char is taken
  as signed (the x86 targets the README names), so the bytes 128..255 are
  negative and pass the test as well.
\<close>

definition le_space :: "char \<Rightarrow> bool" where
  "le_space c = (let n = (of_char c :: nat) in n \<le> 32 \<or> 128 \<le> n)"

text \<open>Reading one byte; past the end of the modelled memory it reads NUL.\<close>

definition peek :: "char list \<Rightarrow> nat \<Rightarrow> char" where
  "peek buf i = (if i < length buf then buf ! i else NUL)"

text \<open>The characters of the C string that starts at index \<open>p\<close>.\<close>

definition c_string :: "char list \<Rightarrow> nat \<Rightarrow> string" where
  "c_string buf p = takeWhile (\<lambda>c. c \<noteq> NUL) (drop p buf)"

text \<open>
  \<^verbatim>\<open>sir__to_lowercase\<close>: despite its name it maps a..z to A..Z
  (\<^verbatim>\<open>c - ('a' - 'A')\<close>) and leaves every other byte alone.
\<close>

definition sir__to_lowercase :: "char \<Rightarrow> char" where
  "sir__to_lowercase c =
     (if (97::nat) \<le> of_char c \<and> of_char c \<le> (122::nat)
      then char_of (of_char c - (32::nat)) else c)"

text \<open>
  The loop of \<^verbatim>\<open>sir__str_equal_case\<close> over two non-null strings: it
  runs while both have a character left, and afterwards \<^verbatim>\<open>*s1 == *s2\<close>
  holds exactly when both have reached their terminator.
\<close>

fun str_equal_loop :: "string \<Rightarrow> string \<Rightarrow> bool \<Rightarrow> bool" where
  "str_equal_loop (c1 # s1) (c2 # s2) case_insensitive =
     (let d1 = (if case_insensitive then sir__to_lowercase c1 else c1);
          d2 = (if case_insensitive then sir__to_lowercase c2 else c2)
      in if d1 \<noteq> d2 then False else str_equal_loop s1 s2 case_insensitive)"
| "str_equal_loop [] [] case_insensitive = True"
| "str_equal_loop [] (c2 # s2) case_insensitive = False"
| "str_equal_loop (c1 # s1) [] case_insensitive = False"

fun sir__str_equal_case :: "string option \<Rightarrow> string option \<Rightarrow> bool \<Rightarrow> bool" where
  "sir__str_equal_case None None case_insensitive = True"
| "sir__str_equal_case None (Some s2) case_insensitive = False"
| "sir__str_equal_case (Some s1) None case_insensitive = False"
| "sir__str_equal_case (Some s1) (Some s2) case_insensitive =
     str_equal_loop s1 s2 case_insensitive"

text \<open>
  \<^verbatim>\<open>sir__skip_whitespace\<close> and \<^verbatim>\<open>sir__skip_to_char\<close> take the memory
  from the pointer onwards and count how far the pointer moves.
\<close>

fun sir__skip_whitespace :: "char list \<Rightarrow> nat" where
  "sir__skip_whitespace [] = 0"
| "sir__skip_whitespace (c # cs) =
     (if c \<noteq> NUL \<and> le_space c then Suc (sir__skip_whitespace cs) else 0)"

fun sir__skip_to_char :: "char list \<Rightarrow> char \<Rightarrow> nat" where
  "sir__skip_to_char [] c = 0"
| "sir__skip_to_char (x # xs) c =
     (if x \<noteq> NUL \<and> x \<noteq> c then Suc (sir__skip_to_char xs c) else 0)"

definition strlen :: "char list \<Rightarrow> nat" where
  "strlen cs = length (takeWhile (\<lambda>c. c \<noteq> NUL) cs)"

text \<open>
  \<^verbatim>\<open>sir__parse_to_char(str, c, &parsed)\<close>: the result is the return value
  (\<open>-1\<close> when the string ends before \<open>c\<close>) and the buffer, in which the found
  \<open>c\<close> has been overwritten by NUL. \<^verbatim>\<open>*parsed_str_ret\<close> is always the
  start \<open>p\<close> itself.
\<close>

definition sir__parse_to_char :: "char list \<Rightarrow> nat \<Rightarrow> char \<Rightarrow> int \<times> char list" where
  "sir__parse_to_char buf p c =
     (let n = sir__skip_to_char (drop p buf) c
      in if peek buf (p + n) = NUL then (- 1, buf) else (int n, buf[p + n := NUL]))"

section \<open>Options\<close>

type_synonym SirOptions = nat

definition SIR_OPTION_IGNORE_EMPTY_VALUES :: SirOptions where
  "SIR_OPTION_IGNORE_EMPTY_VALUES = 0x001"

definition SIR_OPTION_OVERRIDE_DUPLICATE_KEYS :: SirOptions where
  "SIR_OPTION_OVERRIDE_DUPLICATE_KEYS = 0x002"

definition SIR_OPTION_DISABLE_QUOTES :: SirOptions where
  "SIR_OPTION_DISABLE_QUOTES = 0x004"

definition SIR_OPTION_DISABLE_HASH_COMMENTS :: SirOptions where
  "SIR_OPTION_DISABLE_HASH_COMMENTS = 0x008"

definition SIR_OPTION_DISABLE_COLON_ASSIGNMENT :: SirOptions where
  "SIR_OPTION_DISABLE_COLON_ASSIGNMENT = 0x010"

definition SIR_OPTION_DISABLE_COMMENT_ANYWHERE :: SirOptions where
  "SIR_OPTION_DISABLE_COMMENT_ANYWHERE = 0x020"

definition SIR_OPTION_DISABLE_CASE_SENSITIVITY :: SirOptions where
  "SIR_OPTION_DISABLE_CASE_SENSITIVITY = 0x040"

definition SIR_OPTION_DISABLE_ERRORS :: SirOptions where
  "SIR_OPTION_DISABLE_ERRORS = 0x080"

definition SIR_OPTION_DISABLE_WARNINGS :: SirOptions where
  "SIR_OPTION_DISABLE_WARNINGS = 0x100"

text \<open>\<^verbatim>\<open>options & flag\<close> read as a truth value.\<close>

definition opt_set :: "SirOptions \<Rightarrow> SirOptions \<Rightarrow> bool" where
  "opt_set opts flag = (opts AND flag \<noteq> 0)"

definition sir__is_comment_char :: "SirOptions \<Rightarrow> char \<Rightarrow> bool" where
  "sir__is_comment_char opts c =
     (c = CHR '';'' \<or> (\<not> opt_set opts SIR_OPTION_DISABLE_HASH_COMMENTS \<and> c = CHR ''#''))"

definition sir__is_assignment_char :: "SirOptions \<Rightarrow> char \<Rightarrow> bool" where
  "sir__is_assignment_char opts c =
     (c = CHR ''='' \<or> (\<not> opt_set opts SIR_OPTION_DISABLE_COLON_ASSIGNMENT \<and> c = CHR '':''))"

definition sir__parse_to_assignment_char ::
  "SirOptions \<Rightarrow> char list \<Rightarrow> nat \<Rightarrow> int \<times> char list" where
  "sir__parse_to_assignment_char opts buf p =
     (if opt_set opts SIR_OPTION_DISABLE_COLON_ASSIGNMENT
      then sir__parse_to_char buf p (CHR ''='')
      else
        let a = sir__skip_to_char (drop p buf) (CHR ''='');
            b = sir__skip_to_char (drop p buf) (CHR '':'')
        in if a < b then sir__parse_to_char buf p (CHR ''='')
           else sir__parse_to_char buf p (CHR '':''))"

section \<open>The document\<close>

text \<open>
  A \<^verbatim>\<open>const char *\<close> stored in the document points either at a
  string literal of the program or into \<^verbatim>\<open>ini->data\<close>.
\<close>

datatype strref = Lit string | Ptr nat

record SirSectionRange =
  range_start :: nat
  range_end :: nat

text \<open>
  \<^verbatim>\<open>SirSection\<close> is the array \<^verbatim>\<open>ranges\<close> with its length
  \<^verbatim>\<open>ranges_count\<close>: a list of ranges.
\<close>

type_synonym SirSection = "SirSectionRange list"

text \<open>
  \<^verbatim>\<open>SirIniStruct\<close>. The pointer arrays are lists of nullable entries
  (\<open>None\<close> is the null pointer that \<^verbatim>\<open>memset\<close> leaves). The fields
  that only serve allocation, the file name and the warnings are left out.
  \<open>error_writes\<close> is not a field of the C struct: it records every string
  stored into \<^verbatim>\<open>ini->error\<close>, oldest first, so that the number of
  writes an operation makes can be stated.
\<close>

record SirIni =
  data :: "char list"
  sections :: "SirSection list"
  section_names :: "strref option list"
  key_names :: "strref option list"
  key_values :: "strref option list"
  error :: string
  section_count :: nat
  key_count :: nat
  options :: SirOptions
  error_writes :: "string list"

text \<open>The string a stored pointer points at.\<close>

definition deref :: "SirIni \<Rightarrow> strref \<Rightarrow> string" where
  "deref ini r = (case r of Lit s \<Rightarrow> s | Ptr p \<Rightarrow> c_string (data ini) p)"

text \<open>
  Reading entry \<open>i\<close> of a pointer array. An index outside the array is
  outside the allocation in C; the model reads a null pointer there.
\<close>

definition slot :: "'a option list \<Rightarrow> nat \<Rightarrow> 'a option" where
  "slot xs i = (if i < length xs then xs ! i else None)"

definition section_at :: "SirIni \<Rightarrow> nat \<Rightarrow> SirSection" where
  "section_at ini i = (if i < length (sections ini) then sections ini ! i else [])"

definition sir__str_equal :: "SirIni \<Rightarrow> string option \<Rightarrow> string option \<Rightarrow> bool" where
  "sir__str_equal ini s1 s2 =
     sir__str_equal_case s1 s2 (opt_set (options ini) SIR_OPTION_DISABLE_CASE_SENSITIVITY)"

subsection \<open>The error slot\<close>

definition sir__errors_enabled :: "SirIni \<Rightarrow> bool" where
  "sir__errors_enabled ini = (\<not> opt_set (options ini) SIR_OPTION_DISABLE_ERRORS)"

definition SIR_ERROR_STRING_SIZE :: nat where
  "SIR_ERROR_STRING_SIZE = 512"

text \<open>
  The copying loop of \<^verbatim>\<open>sir__set_error\<close>: \<open>i\<close> counts the
  substitutions made, \<open>room\<close> is \<^verbatim>\<open>size - 1 - n\<close>. A \<open>%\<close> with no
  string left to substitute is dropped.
\<close>

fun set_error_loop :: "string \<Rightarrow> nat \<Rightarrow> nat \<Rightarrow> string option \<Rightarrow> string option \<Rightarrow> string" where
  "set_error_loop [] i room s1 s2 = []"
| "set_error_loop (c # format) i room s1 s2 =
     (if room = 0 then []
      else if c = CHR ''%'' then
        (if (i = 0 \<and> s1 \<noteq> None) \<or> (i = 1 \<and> s2 \<noteq> None) then
           (let s = take room (the (if i = 0 then s1 else s2))
            in s @ set_error_loop format (Suc i) (room - length s) s1 s2)
         else set_error_loop format i room s1 s2)
      else c # set_error_loop format i (room - 1) s1 s2)"

definition sir__set_error :: "SirIni \<Rightarrow> string \<Rightarrow> string option \<Rightarrow> string option \<Rightarrow> SirIni" where
  "sir__set_error ini format s1 s2 =
     (if \<not> sir__errors_enabled ini then ini
      else
        let m = set_error_loop format 0 (SIR_ERROR_STRING_SIZE - 1) s1 s2
        in ini\<lparr>error := m, error_writes := error_writes ini @ [m]\<rparr>)"

definition sir__clear_error_str :: "SirIni \<Rightarrow> SirIni" where
  "sir__clear_error_str ini =
     (if sir__errors_enabled ini
      then ini\<lparr>error := [], error_writes := error_writes ini @ [[]]\<rparr>
      else ini)"

definition sir_has_error :: "SirIni \<Rightarrow> bool" where
  "sir_has_error ini = (sir__errors_enabled ini \<and> error ini \<noteq> [])"

subsection \<open>Lookups\<close>

definition section_name_matches :: "SirIni \<Rightarrow> string option \<Rightarrow> nat \<Rightarrow> bool" where
  "section_name_matches ini section_name i =
     (case slot (section_names ini) i of
        None \<Rightarrow> False
      | Some r \<Rightarrow> sir__str_equal ini (Some (deref ini r)) section_name)"

definition sir__get_section :: "SirIni \<Rightarrow> string option \<Rightarrow> SirSection option \<times> SirIni" where
  "sir__get_section ini section_name =
     (case section_name of
        None \<Rightarrow>
          (None, sir__set_error ini
             ''the parameter 'section_name' is not optional''
             None None)
      | Some sn \<Rightarrow>
          (case find (section_name_matches ini section_name) [0..<section_count ini] of
             Some i \<Rightarrow> (Some (section_at ini i), sir__clear_error_str ini)
           | None \<Rightarrow>
               (None, sir__set_error ini
                  ''section '%' not found''
                  section_name None)))"

definition key_name_matches :: "SirIni \<Rightarrow> string option \<Rightarrow> nat \<Rightarrow> bool" where
  "key_name_matches ini key_name j =
     (case slot (key_names ini) j of
        None \<Rightarrow> False
      | Some r \<Rightarrow> sir__str_equal ini (Some (deref ini r)) key_name)"

definition key_value_at :: "SirIni \<Rightarrow> nat \<Rightarrow> string option" where
  "key_value_at ini j = map_option (deref ini) (slot (key_values ini) j)"

text \<open>
  The nested loops of the section-scoped lookup: the ranges in order, each from
  \<open>start\<close> up to \<open>end\<close>, leaving at the first matching key.
\<close>

fun section_scan :: "SirIni \<Rightarrow> string option \<Rightarrow> SirSectionRange list \<Rightarrow> nat option" where
  "section_scan ini key_name [] = None"
| "section_scan ini key_name (r # rs) =
     (case find (key_name_matches ini key_name) [range_start r..<range_end r] of
        Some j \<Rightarrow> Some j
      | None \<Rightarrow> section_scan ini key_name rs)"

text \<open>
  The loop of the section-less lookup over the indices still to visit. The
  result says whether the loop returned from inside (default policy, first
  match) and which value it holds.
\<close>

fun global_scan :: "SirIni \<Rightarrow> string option \<Rightarrow> nat list \<Rightarrow> string option \<Rightarrow> bool \<times> string option" where
  "global_scan ini key_name [] key_value = (False, key_value)"
| "global_scan ini key_name (i # is) key_value =
     (if key_name_matches ini key_name i then
        (if opt_set (options ini) SIR_OPTION_OVERRIDE_DUPLICATE_KEYS
         then global_scan ini key_name is (key_value_at ini i)
         else (True, key_value_at ini i))
      else global_scan ini key_name is key_value)"

definition sir_section_str :: "SirIni \<Rightarrow> string option \<Rightarrow> string option \<Rightarrow> string option \<times> SirIni" where
  "sir_section_str ini section_name key_name =
     (case key_name of
        None \<Rightarrow>
          (None, sir__set_error ini
             ''the parameter 'key_name' is not optional''
             None None)
      | Some kn \<Rightarrow>
          let (section, ini1) =
                (if section_name \<noteq> None then sir__get_section ini section_name else (None, ini))
          in if section_name \<noteq> None \<and> sir_has_error ini1 then (None, ini1)
             else
               (case section of
                  Some sec \<Rightarrow>
                    (case section_scan ini1 key_name sec of
                       Some j \<Rightarrow> (key_value_at ini1 j, sir__clear_error_str ini1)
                     | None \<Rightarrow>
                         (None, sir__set_error ini1
                            (''key '%' not found in section '%'' @ [CHR 0x27])
                            key_name section_name))
                | None \<Rightarrow>
                    (case global_scan ini1 key_name [0..<key_count ini1] None of
                       (True, v) \<Rightarrow> (v, sir__clear_error_str ini1)
                     | (False, Some v) \<Rightarrow> (Some v, sir__clear_error_str ini1)
                     | (False, None) \<Rightarrow>
                         (None, sir__set_error ini1
                            ''key '%' not found''
                            key_name None))))"

section \<open>Loading a document\<close>

subsection \<open>Trimming\<close>

text \<open>
  The backwards loop \<^verbatim>\<open>while (str[i] <= ' ') --i;\<close> of
  \<^verbatim>\<open>sir__trim_whitespace\<close>, started with \<open>k\<close> one above the index
  it examines first. It returns the index at which the terminator is then
  written (\<^verbatim>\<open>i + 1\<close>), or \<open>None\<close> when the loop walks off the front
  of the buffer. The loop has no lower bound and NUL passes its test, so on an
  empty string (\<^verbatim>\<open>strlen(str) - 1\<close> wraps; on a flat address space
  \<^verbatim>\<open>str[i]\<close> is then the byte before \<^verbatim>\<open>str\<close>) it runs back
  through whatever precedes the string.
\<close>

fun rtrim_scan :: "char list \<Rightarrow> nat \<Rightarrow> nat option" where
  "rtrim_scan buf 0 = None"
| "rtrim_scan buf (Suc k) = (if le_space (peek buf k) then rtrim_scan buf k else Some (Suc k))"

text \<open>
  \<^verbatim>\<open>sir__trim_whitespace(str)\<close> on the string at index \<open>p\<close>: the new
  buffer and the returned pointer; \<open>None\<close> when it reads outside the buffer.
\<close>

definition sir__trim_whitespace :: "char list \<Rightarrow> nat \<Rightarrow> (char list \<times> nat) option" where
  "sir__trim_whitespace buf p =
     (let q = p + sir__skip_whitespace (drop p buf);
          e = q + strlen (drop q buf)
      in case rtrim_scan buf e of
           None \<Rightarrow> None
         | Some k \<Rightarrow> Some (buf[k := NUL], q))"

subsection \<open>First pass: blanking comments, counting sections and keys\<close>

function blank_comment :: "char list \<Rightarrow> nat \<Rightarrow> char list \<times> nat" where
  "blank_comment buf p =
     (if p < length buf \<and> buf ! p \<noteq> NUL \<and> buf ! p \<noteq> newline
      then blank_comment (buf[p := CHR '' '']) (Suc p)
      else (buf, p))"
  by pat_completeness auto
termination
  by (relation "measure (\<lambda>(buf, p). length buf - p)") auto

declare blank_comment.simps [simp del]

lemma blank_comment_frame:
  "blank_comment buf p = (buf', p') \<Longrightarrow> length buf' = length buf \<and> p \<le> p'"
proof (induction buf p arbitrary: buf' p' rule: blank_comment.induct)
  case (1 buf p)
  show ?case
  proof (cases "p < length buf \<and> buf ! p \<noteq> NUL \<and> buf ! p \<noteq> newline")
    case True
    with "1.prems" have "blank_comment (buf[p := CHR '' '']) (Suc p) = (buf', p')"
      by (subst (asm) blank_comment.simps) simp
    from "1.IH"[OF True this] show ?thesis by simp
  next
    case False
    with "1.prems" show ?thesis
      by (subst (asm) blank_comment.simps) auto
  qed
qed

text \<open>
  The first loop of \<^verbatim>\<open>sir_load_from_str\<close>; \<open>comment_skip\<close> is the
  conditional at the head of its body. When a comment runs to the end of the
  text, \<^verbatim>\<open>++str\<close> steps over the terminator and the loop goes on
  reading behind the string: the result is \<open>None\<close> then.
\<close>

definition comment_skip :: "SirOptions \<Rightarrow> char list \<Rightarrow> nat \<Rightarrow> char list \<times> nat" where
  "comment_skip opts buf p =
     (if sir__is_comment_char opts (buf ! p) \<and>
         (\<not> opt_set opts SIR_OPTION_DISABLE_COMMENT_ANYWHERE \<or>
          (opt_set opts SIR_OPTION_DISABLE_COMMENT_ANYWHERE \<and>
           (p = 0 \<or> (0 < p \<and> buf ! (p - 1) = newline))))
      then blank_comment buf p else (buf, p))"

function strip_and_count ::
  "SirOptions \<Rightarrow> char list \<Rightarrow> nat \<Rightarrow> nat \<Rightarrow> nat \<Rightarrow> (char list \<times> nat \<times> nat) option" where
  "strip_and_count opts buf p sc kc =
     (if length buf \<le> p then None
      else if buf ! p = NUL then Some (buf, sc, kc)
      else
        let (buf1, p1) = comment_skip opts buf p;
            c = peek buf1 p1
        in strip_and_count opts buf1 (Suc p1)
             (if c = CHR ''['' then Suc sc else sc)
             (if c \<noteq> CHR ''['' \<and> sir__is_assignment_char opts c then Suc kc else kc))"
  by pat_completeness auto
termination
proof (relation "measure (\<lambda>(opts, buf, p, sc, kc). length buf - p)", goal_cases)
  case 1
  show ?case by simp
next
  case (2 opts buf p sc kc x buf1 p1 c)
  then have "length buf1 = length buf \<and> p \<le> p1"
    by (auto simp: comment_skip_def split: if_splits dest: blank_comment_frame[OF sym])
  with 2 show ?case by auto
qed

declare strip_and_count.simps [simp del]

text \<open>
  The same loop body with the character counting as a function of its own:
  equations in which no recursive call stands under a binder, for evaluating
  the pass on a concrete text.
\<close>

definition count_step ::
  "SirOptions \<Rightarrow> char list \<times> nat \<Rightarrow> nat \<Rightarrow> nat \<Rightarrow> (char list \<times> nat \<times> nat) option" where
  "count_step opts bp sc kc =
     strip_and_count opts (fst bp) (Suc (snd bp))
       (if peek (fst bp) (snd bp) = CHR ''['' then Suc sc else sc)
       (if peek (fst bp) (snd bp) \<noteq> CHR ''['' \<and> sir__is_assignment_char opts (peek (fst bp) (snd bp))
        then Suc kc else kc)"

lemma count_step_code [code]:
  "count_step opts (buf1, p1) sc kc =
     strip_and_count opts buf1 (Suc p1)
       (if peek buf1 p1 = CHR ''['' then Suc sc else sc)
       (if peek buf1 p1 \<noteq> CHR ''['' \<and> sir__is_assignment_char opts (peek buf1 p1)
        then Suc kc else kc)"
  by (simp add: count_step_def)

lemma strip_and_count_code [code]:
  "strip_and_count opts buf p sc kc =
     (if length buf \<le> p then None
      else if buf ! p = NUL then Some (buf, sc, kc)
      else count_step opts (comment_skip opts buf p) sc kc)"
  by (subst strip_and_count.simps) (simp add: count_step_def Let_def split: prod.splits)

subsection \<open>Second pass: sections and keys\<close>

text \<open>
  The locals of the parsing loop beside the document under construction:
  the cursor \<open>str\<close> (an index into the data) and the three indices.
\<close>

record parse_state =
  ini :: SirIni
  str :: nat
  prev_index :: nat
  section_index :: nat
  key_index :: nat

text \<open>
  \<^verbatim>\<open>ini->sections[prev_index].ranges[ranges_count - 1].end = key_index\<close>.
  The \<open>end\<close> of a range is indeterminate until this assignment; the model
  holds 0 there before.
\<close>

definition close_range :: "SirIni \<Rightarrow> nat \<Rightarrow> nat \<Rightarrow> SirIni option" where
  "close_range i0 prev kidx =
     (if prev < length (sections i0) \<and> sections i0 ! prev \<noteq> [] then
        (let rs = sections i0 ! prev;
             last_i = length rs - 1
         in Some (i0\<lparr>sections := (sections i0)[prev := rs[last_i := (rs ! last_i)\<lparr>range_end := kidx\<rparr>]]\<rparr>))
      else None)"

text \<open>The header's name is compared with the names of the sections 0..section\_index.\<close>

definition section_duplicate :: "SirIni \<Rightarrow> nat \<Rightarrow> string \<Rightarrow> nat option" where
  "section_duplicate i0 sidx section_name =
     find (\<lambda>i. sir__str_equal i0 (map_option (deref i0) (slot (section_names i0) i))
                  (Some section_name))
       [0..<sidx + 1]"

definition parse_section :: "parse_state \<Rightarrow> (parse_state \<times> bool) option" where
  "parse_section st =
     do {
       i1 \<leftarrow> close_range (ini st) (prev_index st) (key_index st);
       let p = str st + 1;
       let (n, buf1) = sir__parse_to_char (data i1) p (CHR '']'');
       (buf2, section_name) \<leftarrow> sir__trim_whitespace buf1 p;
       let i2 = i1\<lparr>data := buf2\<rparr>;
       (i3, prev', sidx') \<leftarrow>
         (case section_duplicate i2 (section_index st) (c_string buf2 section_name) of
            Some duplicate \<Rightarrow>
              if duplicate \<noteq> prev_index st then
                (if duplicate < length (sections i2) then
                   Some (i2\<lparr>sections := (sections i2)
                            [duplicate := sections i2 ! duplicate @
                               [\<lparr>range_start = key_index st, range_end = 0\<rparr>]]\<rparr>,
                         duplicate, section_index st)
                 else None)
              else Some (i2, duplicate, section_index st)
          | None \<Rightarrow>
              let si = section_index st + 1 in
              if si < length (sections i2) \<and> si < length (section_names i2) \<and> sections i2 ! si \<noteq> []
              then
                Some (i2\<lparr>sections := (sections i2)
                         [si := (sections i2 ! si)[0 := (sections i2 ! si ! 0)\<lparr>range_start := key_index st\<rparr>]],
                        section_names := (section_names i2)[si := Some (Ptr section_name)]\<rparr>,
                      si, si)
              else None);
       Some (st\<lparr>ini := i3, prev_index := prev', section_index := sidx',
                 str := (if n = - 1 then p else p + nat n + 1)\<rparr>,
             n \<noteq> - 1)
     }"

text \<open>
  The duplicate check of a key line. It walks the ranges of
  \<^verbatim>\<open>ini->sections[section_index]\<close>, the last one up to \<open>key_index\<close>;
  the inner \<^verbatim>\<open>break\<close> leaves one range only, so a match in a later
  range replaces an earlier one.
\<close>

definition key_duplicate :: "SirIni \<Rightarrow> nat \<Rightarrow> nat \<Rightarrow> string \<Rightarrow> nat option" where
  "key_duplicate i0 sidx kidx key_name =
     (let section = section_at i0 sidx
      in fold
           (\<lambda>i duplicate.
              let e = (if i < length section - 1 then range_end (section ! i) else kidx);
                  s = range_start (section ! i)
              in case find (\<lambda>j. sir__str_equal i0 (map_option (deref i0) (slot (key_names i0) j))
                                   (Some key_name))
                        [s..<e] of
                   Some j \<Rightarrow> Some j
                 | None \<Rightarrow> duplicate)
           [0..<length section] None)"

text \<open>Is there a double quote before the end of the line?\<close>

fun quote_on_line :: "char list \<Rightarrow> bool" where
  "quote_on_line [] = False"
| "quote_on_line (c # cs) =
     (if c = NUL \<or> c = newline then False
      else if c = dquote then True
      else quote_on_line cs)"

definition parse_key :: "parse_state \<Rightarrow> (parse_state \<times> bool) option" where
  "parse_key st =
     do {
       let p = str st;
       let i0 = ini st;
       let (n, buf1) = sir__parse_to_assignment_char (options i0) (data i0) p;
       (buf2, key_name) \<leftarrow> sir__trim_whitespace buf1 p;
       let i2 = i0\<lparr>data := buf2\<rparr>;
       let duplicate = key_duplicate i2 (section_index st) (key_index st) (c_string buf2 key_name);
       (buf3, p3, key_value) \<leftarrow>
         (if n \<noteq> - 1 then
            let q = p + nat n + 1;
                quoted = (\<not> opt_set (options i0) SIR_OPTION_DISABLE_QUOTES \<and>
                          quote_on_line (drop q buf2))
            in if quoted then
                 let q1 = q + sir__skip_to_char (drop q buf2) dquote + 1;
                     (m, b) = sir__parse_to_char buf2 q1 dquote
                 in Some (b, q1 + nat (m + 1), Ptr q1)
               else
                 let (m, b) = sir__parse_to_char buf2 q newline
                 in (case sir__trim_whitespace b q of
                       None \<Rightarrow> None
                     | Some (b', v) \<Rightarrow> Some (b', q + nat (m + 1), Ptr v))
          else Some (buf2, p, Lit []));
       let i3 = i2\<lparr>data := buf3\<rparr>;
       let empty = (case key_value of Lit s \<Rightarrow> s = [] | Ptr v \<Rightarrow> peek buf3 v = NUL);
       (i4, kidx) \<leftarrow>
         (if \<not> (empty \<and> opt_set (options i0) SIR_OPTION_IGNORE_EMPTY_VALUES) then
            (case duplicate of
               Some d \<Rightarrow>
                 if opt_set (options i0) SIR_OPTION_OVERRIDE_DUPLICATE_KEYS then
                   (if d < length (key_values i3)
                    then Some (i3\<lparr>key_values := (key_values i3)[d := Some key_value]\<rparr>, key_index st)
                    else None)
                 else Some (i3, key_index st)
             | None \<Rightarrow>
                 if key_index st < length (key_names i3) \<and> key_index st < length (key_values i3)
                 then Some (i3\<lparr>key_names := (key_names i3)[key_index st := Some (Ptr key_name)],
                                key_values := (key_values i3)[key_index st := Some key_value]\<rparr>,
                            key_index st + 1)
                 else None)
          else Some (i3, key_index st));
       Some (st\<lparr>ini := i4, str := p3, key_index := kidx\<rparr>, n \<noteq> - 1)
     }"

text \<open>Both steps keep the size of the buffer, and a step that asks to go on has moved the cursor.\<close>

lemma parse_to_char_length:
  "sir__parse_to_char buf p c = (n, buf') \<Longrightarrow> length buf' = length buf \<and> - 1 \<le> n"
  by (auto simp: sir__parse_to_char_def Let_def split: if_splits)

lemma parse_to_assignment_char_length:
  "sir__parse_to_assignment_char opts buf p = (n, buf') \<Longrightarrow> length buf' = length buf \<and> - 1 \<le> n"
  by (auto simp: sir__parse_to_assignment_char_def Let_def split: if_splits
      dest: parse_to_char_length)

lemma trim_whitespace_length:
  "sir__trim_whitespace buf p = Some (buf', q) \<Longrightarrow> length buf' = length buf \<and> p \<le> q"
  by (auto simp: sir__trim_whitespace_def Let_def split: option.splits)

lemma close_range_data: "close_range i0 prev k = Some i1 \<Longrightarrow> data i1 = data i0"
  by (auto simp: close_range_def Let_def split: if_splits)

lemma parse_section_frame:
  assumes "parse_section st = Some (st', True)"
  shows "length (data (ini st')) = length (data (ini st)) \<and> str st < str st'"
  using assms
  unfolding parse_section_def
  by (auto simp: Let_def split: Option.bind_splits prod.splits option.splits if_splits
      dest!: parse_to_char_length trim_whitespace_length close_range_data)

lemma parse_key_frame:
  assumes "parse_key st = Some (st', True)"
  shows "length (data (ini st')) = length (data (ini st)) \<and> str st < str st'"
  using assms
  unfolding parse_key_def
  by (auto simp: Let_def split: Option.bind_splits prod.splits option.splits if_splits
      dest!: parse_to_char_length trim_whitespace_length parse_to_assignment_char_length)

text \<open>
  The parsing loop \<^verbatim>\<open>while (*str)\<close>. A step that ends with
  \<^verbatim>\<open>break\<close> returns \<open>False\<close> as its second component. When only
  whitespace was left, neither branch is taken and the loop condition fails
  at once.
\<close>

function parse_loop :: "parse_state \<Rightarrow> parse_state option" where
  "parse_loop st =
     (if peek (data (ini st)) (str st) = NUL then Some st
      else
        let st1 = st\<lparr>str := str st + sir__skip_whitespace (drop (str st) (data (ini st)))\<rparr>
        in if peek (data (ini st1)) (str st1) = CHR ''['' then
             (case parse_section st1 of
                None \<Rightarrow> None
              | Some (st2, continue) \<Rightarrow> if continue then parse_loop st2 else Some st2)
           else if peek (data (ini st1)) (str st1) \<noteq> NUL then
             (case parse_key st1 of
                None \<Rightarrow> None
              | Some (st2, continue) \<Rightarrow> if continue then parse_loop st2 else Some st2)
           else Some st1)"
  by pat_completeness auto
termination
proof (relation "measure (\<lambda>st. length (data (ini st)) - str st)", goal_cases)
  case 1
  show ?case by simp
next
  case (2 st st1 x2 st2 continue)
  then have "parse_section st1 = Some (st2, True)" by simp
  from parse_section_frame[OF this] 2 show ?case
    by (auto simp: peek_def split: if_splits)
next
  case (3 st st1 x2 st2 continue)
  then have "parse_key st1 = Some (st2, True)" by simp
  from parse_key_frame[OF this] 3 show ?case
    by (auto simp: peek_def split: if_splits)
qed

declare parse_loop.simps [simp del]

text \<open>
  \<^verbatim>\<open>sir_load_from_str(s, options, name, mem_ctx)\<close>. The text \<open>s\<close> is
  the characters before its terminator; the buffer is \<open>s\<close> with the
  terminator. The arrays are allocated with the counts of the first pass and
  zeroed; every section gets one range; section 0 is the global section. The
  optional pass that collects warnings writes nothing the lookups read and is
  left out. The result is \<open>None\<close> when the run reads or writes outside the
  buffer or the arrays.
\<close>

definition SIR_GLOBAL_SECTION_NAME :: string where
  "SIR_GLOBAL_SECTION_NAME = ''global''"

definition sir_load_from_str :: "string \<Rightarrow> SirOptions \<Rightarrow> SirIni option" where
  "sir_load_from_str s opts =
     do {
       (buf, sc, kc) \<leftarrow> strip_and_count opts (s @ [NUL]) 0 1 0;
       let i0 = \<lparr>data = buf,
                 sections = replicate sc [\<lparr>range_start = 0, range_end = 0\<rparr>],
                 section_names = (replicate sc None)[0 := Some (Lit SIR_GLOBAL_SECTION_NAME)],
                 key_names = replicate kc None,
                 key_values = replicate kc None,
                 error = [],
                 section_count = sc,
                 key_count = kc,
                 options = opts,
                 error_writes = []\<rparr>;
       st \<leftarrow> parse_loop \<lparr>ini = i0, str = 0, prev_index = 0, section_index = 0, key_index = 0\<rparr>;
       i1 \<leftarrow> close_range (ini st) (prev_index st) (key_index st);
       let i2 = (if section_index st + 1 < section_count i1
                 then i1\<lparr>section_count := section_index st + 1,
                         sections := take (section_index st + 1) (sections i1),
                         section_names := take (section_index st + 1) (section_names i1)\<rparr>
                 else i1);
       let i3 = (if key_index st < key_count i2
                 then i2\<lparr>key_count := key_index st,
                         key_names := take (key_index st) (key_names i2),
                         key_values := take (key_index st) (key_values i2)\<rparr>
                 else i2);
       Some (sir__clear_error_str i3)
     }"

subsection \<open>Conversions\<close>

text \<open>
  \<^verbatim>\<open>strtol\<close>, \<^verbatim>\<open>strtoul\<close> and \<^verbatim>\<open>strtod\<close> belong to the C
  library, not to this repository: the conversions take them as parameters.
  What the callers read of a call is one of three outcomes:
  \<open>Out_Of_Range v\<close> when \<^verbatim>\<open>errno == ERANGE\<close> (with the value
  returned), else \<open>No_Conversion\<close> when \<^verbatim>\<open>endptr == str\<close>, else
  \<open>Converted v\<close>.
\<close>

datatype 'a strto = Converted 'a | Out_Of_Range 'a | No_Conversion

text \<open>The limits of \<^verbatim>\<open>long\<close> on an LP64 target.\<close>

definition LONG_MAX :: int where
  "LONG_MAX = 2 ^ 63 - 1"

definition LONG_MIN :: int where
  "LONG_MIN = - (2 ^ 63)"

definition sir_section_long ::
  "(string \<Rightarrow> int strto) \<Rightarrow> SirIni \<Rightarrow> string option \<Rightarrow> string option \<Rightarrow> int \<times> SirIni" where
  "sir_section_long strtol ini0 section_name key_name =
     (case sir_section_str ini0 section_name key_name of
        (val, ini1) \<Rightarrow>
          if sir_has_error ini1 \<or> val = None then (0, ini1)
          else
            (case strtol (the val) of
               Out_Of_Range l \<Rightarrow>
                 (0, sir__set_error ini1
                       (if l = LONG_MAX then
                          [CHR 0x27] @ ''%' is more than the maximum value of a long interger.''
                        else if l = LONG_MIN then
                          [CHR 0x27] @ ''%' is less than the minimum value of a long interger.''
                        else
                          [CHR 0x27] @ ''%' is outside the range of values of a long integer.'')
                       val None)
             | No_Conversion \<Rightarrow>
                 (0, sir__set_error ini1
                       ([CHR 0x27] @ ''%' could not be converted to a long integer.'') val None)
             | Converted l \<Rightarrow> (l, ini1)))"

text \<open>
  \<^verbatim>\<open>sir_section_unsigned_long\<close> is declared to return \<^verbatim>\<open>long\<close>, so
  the converted value is read back as a signed 64-bit number.
\<close>

definition long_of_unsigned_long :: "nat \<Rightarrow> int" where
  "long_of_unsigned_long u =
     (let v = int u mod 2 ^ 64 in if v < 2 ^ 63 then v else v - 2 ^ 64)"

definition sir_section_unsigned_long ::
  "(string \<Rightarrow> nat strto) \<Rightarrow> SirIni \<Rightarrow> string option \<Rightarrow> string option \<Rightarrow> int \<times> SirIni" where
  "sir_section_unsigned_long strtoul ini0 section_name key_name =
     (case sir_section_str ini0 section_name key_name of
        (val, ini1) \<Rightarrow>
          if sir_has_error ini1 \<or> val = None then (0, ini1)
          else
            (case strtoul (the val) of
               Out_Of_Range ul \<Rightarrow>
                 (0, sir__set_error ini1
                       ([CHR 0x27] @
                        ''%' is outside the range of values of an unsigned long integer.'')
                       val None)
             | No_Conversion \<Rightarrow>
                 (0, sir__set_error ini1
                       ([CHR 0x27] @
                        ''%' could not be converted to an unsigned long integer.'')
                       val None)
             | Converted ul \<Rightarrow> (long_of_unsigned_long ul, ini1)))"

text \<open>
  The double conversion, over any type \<open>'d\<close> of values with the constant
  \<^verbatim>\<open>HUGE_VAL\<close> passed in; nothing is said about floating-point
  arithmetic.
\<close>

definition sir_section_double ::
  "(string \<Rightarrow> 'd strto) \<Rightarrow> 'd \<Rightarrow> SirIni \<Rightarrow> string option \<Rightarrow> string option
     \<Rightarrow> ('d::{zero,uminus}) \<times> SirIni" where
  "sir_section_double strtod huge_val ini0 section_name key_name =
     (case sir_section_str ini0 section_name key_name of
        (val, ini1) \<Rightarrow>
          if sir_has_error ini1 \<or> val = None then (0, ini1)
          else
            (case strtod (the val) of
               Out_Of_Range d \<Rightarrow>
                 (0, sir__set_error ini1
                       (if d = huge_val then
                          [CHR 0x27] @ ''%' is more than the maximum value of a double.''
                        else if d = - huge_val then
                          [CHR 0x27] @ ''%' is less than the minimum value of a double.''
                        else
                          [CHR 0x27] @ ''%' is outside the range of values of a double.'')
                       val None)
             | No_Conversion \<Rightarrow>
                 (0, sir__set_error ini1
                       ([CHR 0x27] @ ''%' could not be converted to a double.'') val None)
             | Converted d \<Rightarrow> (d, ini1)))"

definition SIR__BOOL_TRUE_STRING :: string where
  "SIR__BOOL_TRUE_STRING = ''true''"

definition SIR__BOOL_FALSE_STRING :: string where
  "SIR__BOOL_FALSE_STRING = ''false''"

text \<open>
  \<^verbatim>\<open>sir_section_bool\<close>. \<^verbatim>\<open>strncpy(s, str, len); s[len] = '\0'\<close>
  leaves in \<open>s\<close> the first \<open>len\<close> characters of the string (all of it when
  it is shorter). The result is the C \<^verbatim>\<open>char\<close> read as a number.
\<close>

definition sir_section_bool ::
  "(string \<Rightarrow> int strto) \<Rightarrow> SirIni \<Rightarrow> string option \<Rightarrow> string option \<Rightarrow> int \<times> SirIni" where
  "sir_section_bool strtol ini0 section_name key_name =
     (case sir_section_long strtol ini0 section_name key_name of
        (l, ini1) \<Rightarrow>
          if \<not> sir_has_error ini1 then (if l \<noteq> 0 then 1 else 0, ini1)
          else
            (case sir_section_str ini1 section_name key_name of
               (val, ini2) \<Rightarrow>
                 if sir_has_error ini2 \<or> val = None then (- 1, ini2)
                 else
                   let str1 = drop (sir__skip_whitespace (the val)) (the val)
                   in if sir__str_equal_case
                           (Some (take (length SIR__BOOL_TRUE_STRING) str1))
                           (Some SIR__BOOL_TRUE_STRING) True
                      then (1, ini2)
                      else if sir__str_equal_case
                           (Some (take (length SIR__BOOL_FALSE_STRING) str1))
                           (Some SIR__BOOL_FALSE_STRING) True
                      then (0, ini2)
                      else (- 1, sir__set_error ini2
                                   (''could not parse '%' as a bool'') (Some str1) None)))"

subsection \<open>Arrays handed to the caller\<close>

text \<open>
  The result of a call that returns a freshly allocated array: the null
  pointer, the array (its size is the length), or \<open>Ret_Undefined\<close> when the
  call reads through a null pointer or outside an allocation.
\<close>

datatype 'a ret = Ret_Null | Ret_Undefined | Ret_Array "'a list"

text \<open>The inner loop \<^verbatim>\<open>while (*end && *end != ',') ++end;\<close>.\<close>

definition csv_end :: "char list \<Rightarrow> nat \<Rightarrow> nat" where
  "csv_end s e = e + sir__skip_to_char (drop e s) (CHR '','')"

text \<open>
  The splitting loop of \<^verbatim>\<open>sir_section_csv\<close>: \<open>csv\<close> collects the
  pointers stored so far, \<open>e\<close> is the C variable \<^verbatim>\<open>end\<close>.
\<close>

function csv_loop ::
  "char list \<Rightarrow> nat \<Rightarrow> nat \<Rightarrow> nat \<Rightarrow> nat \<Rightarrow> nat list \<Rightarrow> char list \<times> nat list" where
  "csv_loop s start e i csv_size csv =
     (if i < csv_size then
        csv_loop (s[csv_end s e := NUL]) (Suc (csv_end s e)) (Suc (csv_end s e)) (Suc i) csv_size
          (csv @ [start + sir__skip_whitespace (drop start s)])
      else (s, csv))"
  by pat_completeness auto
termination
  by (relation "measure (\<lambda>(s, start, e, i, csv_size, csv). csv_size - i)") auto

declare csv_loop.simps [simp del]

definition sir_section_csv ::
  "SirIni \<Rightarrow> string option \<Rightarrow> string option \<Rightarrow> string ret \<times> SirIni" where
  "sir_section_csv ini0 section_name key_name =
     (case sir_section_str ini0 section_name key_name of
        (val, ini1) \<Rightarrow>
          if sir_has_error ini1 \<or> val = None then (Ret_Null, ini1)
          else
            (case sir__trim_whitespace
                    (drop (sir__skip_whitespace (the val)) (the val) @ [NUL]) 0 of
               None \<Rightarrow> (Ret_Undefined, ini1)
             | Some (s, q) \<Rightarrow>
                 (case csv_loop s q q 0
                         (1 + length (filter (\<lambda>c. c = CHR '','') (c_string s q))) [] of
                    (s', csv) \<Rightarrow> (Ret_Array (map (c_string s') csv), ini1))))"

text \<open>
  \<^verbatim>\<open>sir__section_key_array\<close> behind \<^verbatim>\<open>sir_section_key_names\<close> and
  \<^verbatim>\<open>sir_section_key_values\<close>. With errors disabled an unknown section
  is not noticed and its null pointer is dereferenced.
\<close>

definition sir__section_key_array ::
  "SirIni \<Rightarrow> string option \<Rightarrow> strref option list \<Rightarrow> string option ret \<times> SirIni" where
  "sir__section_key_array ini0 section_name key_array =
     (case section_name of
        None \<Rightarrow>
          (Ret_Null, sir__set_error ini0 ''the parameter 'section_name' is not optional'' None None)
      | Some sn \<Rightarrow>
          (case sir__get_section ini0 section_name of
             (section, ini1) \<Rightarrow>
               if sir_has_error ini1 then (Ret_Null, ini1)
               else
                 (case section of
                    None \<Rightarrow> (Ret_Undefined, ini1)
                  | Some sec \<Rightarrow>
                      (Ret_Array
                         (concat (map (\<lambda>r. map (\<lambda>j. map_option (deref ini1) (slot key_array j))
                                               [range_start r..<range_end r]) sec)),
                       sir__clear_error_str ini1))))"

definition sir_section_key_names :: "SirIni \<Rightarrow> string option \<Rightarrow> string option ret \<times> SirIni" where
  "sir_section_key_names ini0 section_name =
     sir__section_key_array ini0 section_name (key_names ini0)"

definition sir_section_key_values :: "SirIni \<Rightarrow> string option \<Rightarrow> string option ret \<times> SirIni" where
  "sir_section_key_values ini0 section_name =
     sir__section_key_array ini0 section_name (key_values ini0)"

subsection \<open>A reference \<^verbatim>\<open>strtol\<close>\<close>

text \<open>
  For evaluating the conversions on concrete documents: \<^verbatim>\<open>strtol(str,
  &endptr, 0)\<close> as the C standard describes it, for the C locale and a 64-bit
  \<^verbatim>\<open>long\<close>. Leading white space, an optional sign, then a hexadecimal
  number after \<open>0x\<close>, an octal one after \<open>0\<close>, a decimal one otherwise.
\<close>

definition c_isspace :: "char \<Rightarrow> bool" where
  "c_isspace c = (let n = (of_char c :: nat) in n = 32 \<or> (9 \<le> n \<and> n \<le> 13))"

definition digit_value :: "char \<Rightarrow> nat option" where
  "digit_value c =
     (let n = (of_char c :: nat)
      in if 48 \<le> n \<and> n \<le> 57 then Some (n - 48)
         else if 97 \<le> n \<and> n \<le> 122 then Some (n - 87)
         else if 65 \<le> n \<and> n \<le> 90 then Some (n - 55)
         else None)"

definition is_digit_of :: "nat \<Rightarrow> char \<Rightarrow> bool" where
  "is_digit_of base c = (case digit_value c of None \<Rightarrow> False | Some d \<Rightarrow> d < base)"

definition number_of_digits :: "nat \<Rightarrow> string \<Rightarrow> int" where
  "number_of_digits base ds =
     foldl (\<lambda>acc c. acc * int base + int (the (digit_value c))) 0 ds"

definition hex_prefix :: "string \<Rightarrow> bool" where
  "hex_prefix s =
     (case s of
        c0 # x # h # r \<Rightarrow> c0 = CHR ''0'' \<and> (x = CHR ''x'' \<or> x = CHR ''X'') \<and> is_digit_of 16 h
      | _ \<Rightarrow> False)"

definition c_strtol :: "string \<Rightarrow> int strto" where
  "c_strtol s =
     (let s1 = dropWhile c_isspace s;
          negative = (s1 \<noteq> [] \<and> hd s1 = CHR ''-'');
          s2 = (if s1 \<noteq> [] \<and> (hd s1 = CHR ''-'' \<or> hd s1 = CHR ''+'') then tl s1 else s1);
          base = (if hex_prefix s2 then 16
                  else if s2 \<noteq> [] \<and> hd s2 = CHR ''0'' then 8 else 10);
          ds = takeWhile (is_digit_of base) (if hex_prefix s2 then drop 2 s2 else s2);
          v = (if negative then - number_of_digits base ds else number_of_digits base ds)
      in if ds = [] then No_Conversion
         else if LONG_MAX < v then Out_Of_Range LONG_MAX
         else if v < LONG_MIN then Out_Of_Range LONG_MIN
         else Converted v)"

section \<open>Documents used in the evaluations\<close>

text \<open>
  The documents that \<open>sir_load_from_str\<close> builds from a few small texts,
  written out so that the lookups can be evaluated on them. Each is shown
  below to be the result of loading its text.
\<close>

definition doc_reopened :: SirIni where
  "doc_reopened =
     \<lparr>data = ''[a'' @ [NUL, newline] @ ''[b'' @ [NUL, newline] @ ''k'' @ [NUL] @ ''1'' @ [NUL] @
             ''[a'' @ [NUL, newline] @ ''k'' @ [NUL] @ ''2'' @ [NUL, NUL],
      sections = [[\<lparr>range_start = 0, range_end = 0\<rparr>],
                  [\<lparr>range_start = 0, range_end = 0\<rparr>, \<lparr>range_start = 1, range_end = 1\<rparr>],
                  [\<lparr>range_start = 0, range_end = 1\<rparr>]],
      section_names = [Some (Lit ''global''), Some (Ptr 1), Some (Ptr 5)],
      key_names = [Some (Ptr 8)],
      key_values = [Some (Ptr 10)],
      error = [], section_count = 3, key_count = 1, options = 0, error_writes = [[]]\<rparr>"

definition doc_merged :: SirIni where
  "doc_merged =
     \<lparr>data = ''[a'' @ [NUL, newline] @ ''x'' @ [NUL] @ ''1'' @ [NUL] @
             ''[b'' @ [NUL, newline] @ ''y'' @ [NUL] @ ''2'' @ [NUL] @
             ''[a'' @ [NUL, newline] @ ''y'' @ [NUL] @ ''3'' @ [NUL, NUL],
      sections = [[\<lparr>range_start = 0, range_end = 0\<rparr>],
                  [\<lparr>range_start = 0, range_end = 1\<rparr>, \<lparr>range_start = 2, range_end = 2\<rparr>],
                  [\<lparr>range_start = 1, range_end = 2\<rparr>]],
      section_names = [Some (Lit ''global''), Some (Ptr 1), Some (Ptr 9)],
      key_names = [Some (Ptr 4), Some (Ptr 12)],
      key_values = [Some (Ptr 6), Some (Ptr 14)],
      error = [], section_count = 3, key_count = 2, options = 0, error_writes = [[]]\<rparr>"

definition foo_bar_text :: string where
  "foo_bar_text = ''[a]\<newline>[b]\<newline>key=zzz\<newline>[a]\<newline>key=foo\<newline>key=bar\<newline>''"

definition foo_bar_data :: "char list" where
  "foo_bar_data =
     ''[a'' @ [NUL, newline] @ ''[b'' @ [NUL, newline] @ ''key'' @ [NUL] @ ''zzz'' @ [NUL] @
     ''[a'' @ [NUL, newline] @ ''key'' @ [NUL] @ ''foo'' @ [NUL] @ ''key'' @ [NUL] @ ''bar'' @
     [NUL, NUL]"

definition doc_first_wins :: SirIni where
  "doc_first_wins =
     \<lparr>data = foo_bar_data,
      sections = [[\<lparr>range_start = 0, range_end = 0\<rparr>],
                  [\<lparr>range_start = 0, range_end = 0\<rparr>, \<lparr>range_start = 1, range_end = 1\<rparr>],
                  [\<lparr>range_start = 0, range_end = 1\<rparr>]],
      section_names = [Some (Lit ''global''), Some (Ptr 1), Some (Ptr 5)],
      key_names = [Some (Ptr 8)],
      key_values = [Some (Ptr 12)],
      error = [], section_count = 3, key_count = 1, options = 0, error_writes = [[]]\<rparr>"

definition doc_override :: SirIni where
  "doc_override =
     \<lparr>data = foo_bar_data,
      sections = [[\<lparr>range_start = 0, range_end = 0\<rparr>],
                  [\<lparr>range_start = 0, range_end = 0\<rparr>, \<lparr>range_start = 1, range_end = 1\<rparr>],
                  [\<lparr>range_start = 0, range_end = 1\<rparr>]],
      section_names = [Some (Lit ''global''), Some (Ptr 1), Some (Ptr 5)],
      key_names = [Some (Ptr 8)],
      key_values = [Some (Ptr 32)],
      error = [], section_count = 3, key_count = 1,
      options = SIR_OPTION_OVERRIDE_DUPLICATE_KEYS, error_writes = [[]]\<rparr>"

definition doc_true_no_errors :: SirIni where
  "doc_true_no_errors =
     \<lparr>data = ''k'' @ [NUL] @ ''true'' @ [NUL, NUL],
      sections = [[\<lparr>range_start = 0, range_end = 1\<rparr>]],
      section_names = [Some (Lit ''global'')],
      key_names = [Some (Ptr 0)],
      key_values = [Some (Ptr 2)],
      error = [], section_count = 1, key_count = 1,
      options = SIR_OPTION_DISABLE_ERRORS, error_writes = []\<rparr>"

section \<open>Properties\<close>

subsection \<open>String primitives\<close>

lemma skip_to_char_takeWhile:
  "sir__skip_to_char xs c =
     length (takeWhile (\<lambda>x. x \<noteq> c) (takeWhile (\<lambda>x. x \<noteq> NUL) xs))"
  by (induction xs) auto

lemma peek_drop: "peek buf (p + n) = peek (drop p buf) n"
  by (auto simp: peek_def)

lemma peek_skip_to_char:
  "c \<noteq> NUL \<Longrightarrow> peek xs (sir__skip_to_char xs c) = NUL \<longleftrightarrow>
     sir__skip_to_char xs c = length (takeWhile (\<lambda>x. x \<noteq> NUL) xs)"
  by (induction xs) (auto simp: peek_def)

lemma parse_to_char_spec:
  "c \<noteq> NUL \<Longrightarrow> sir__parse_to_char buf p c =
     (let t = c_string buf p; n = length (takeWhile (\<lambda>x. x \<noteq> c) t)
      in if n < length t then (int n, buf[p + n := NUL]) else (- 1, buf))"
  unfolding sir__parse_to_char_def Let_def peek_drop
  using peek_skip_to_char[of c "drop p buf"]
  apply (simp add: c_string_def skip_to_char_takeWhile)
  by (metis length_takeWhile_le nat_less_le)

lemma takeWhile_min:
  "length (takeWhile (\<lambda>x. P x \<and> Q x) xs) =
     min (length (takeWhile P xs)) (length (takeWhile Q xs))"
  by (induction xs) auto

lemma takeWhile_full: "length (takeWhile P xs) = length xs \<longleftrightarrow> (\<forall>x \<in> set xs. P x)"
  by (induction xs) auto

text \<open>
  Claim C6. The key name ends at the earliest assignment character of the
  remaining text: the returned count is the number of characters before the
  first character that \<open>sir__is_assignment_char\<close> accepts (only \<open>=\<close> when
  colon assignment is disabled, \<open>=\<close> or \<open>:\<close> otherwise), that character is
  overwritten by the terminator, and \<open>-1\<close> is returned with the text untouched
  when there is none. The two scans of the function can only tie when neither
  character occurs in the text, where both branches return \<open>-1\<close>.
\<close>

theorem parse_to_assignment_char_earliest:
  "sir__parse_to_assignment_char opts buf p =
     (let t = c_string buf p;
          n = length (takeWhile (\<lambda>c. \<not> sir__is_assignment_char opts c) t)
      in if n < length t then (int n, buf[p + n := NUL]) else (- 1, buf))
   \<and> ((sir__skip_to_char (drop p buf) (CHR ''='') = sir__skip_to_char (drop p buf) (CHR '':''))
        = (CHR ''='' \<notin> set (c_string buf p) \<and> CHR '':'' \<notin> set (c_string buf p)))"
proof
  let ?t = "c_string buf p"
  let ?a = "length (takeWhile (\<lambda>x. x \<noteq> CHR ''='') ?t)"
  let ?b = "length (takeWhile (\<lambda>x. x \<noteq> CHR '':'') ?t)"
  have a: "sir__skip_to_char (drop p buf) (CHR ''='') = ?a"
    and b: "sir__skip_to_char (drop p buf) (CHR '':'') = ?b"
    by (simp_all add: skip_to_char_takeWhile c_string_def)
  have la: "?a \<le> length ?t" and lb: "?b \<le> length ?t"
    by (rule length_takeWhile_le)+
  show "sir__parse_to_assignment_char opts buf p =
     (let t = c_string buf p;
          n = length (takeWhile (\<lambda>c. \<not> sir__is_assignment_char opts c) t)
      in if n < length t then (int n, buf[p + n := NUL]) else (- 1, buf))"
  proof (cases "opt_set opts SIR_OPTION_DISABLE_COLON_ASSIGNMENT")
    case True
    then show ?thesis
      by (simp add: sir__parse_to_assignment_char_def sir__is_assignment_char_def
          parse_to_char_spec NUL_def)
  next
    case False
    have n: "length (takeWhile (\<lambda>c. \<not> sir__is_assignment_char opts c) ?t) = min ?a ?b"
      using False takeWhile_min[of "\<lambda>x. x \<noteq> CHR ''=''" "\<lambda>x. x \<noteq> CHR '':''" ?t]
      by (simp add: sir__is_assignment_char_def)
    show ?thesis
      using False la lb
      by (auto simp: sir__parse_to_assignment_char_def Let_def a b n parse_to_char_spec NUL_def
          min_def)
  qed
  have neq: "?a < length ?t \<Longrightarrow> ?b < length ?t \<Longrightarrow> ?a \<noteq> ?b"
  proof
    assume 1: "?a < length ?t" and 2: "?b < length ?t" and e: "?a = ?b"
    from 1 have "?t ! ?a = CHR ''=''"
      using nth_length_takeWhile[of "\<lambda>x. x \<noteq> CHR ''=''" ?t] by simp
    moreover from 2 have "?t ! ?b = CHR '':''"
      using nth_length_takeWhile[of "\<lambda>x. x \<noteq> CHR '':''" ?t] by simp
    ultimately show False using e by simp
  qed
  have fa: "?a = length ?t \<longleftrightarrow> CHR ''='' \<notin> set ?t"
    and fb: "?b = length ?t \<longleftrightarrow> CHR '':'' \<notin> set ?t"
    by (auto simp: takeWhile_full)
  show "(sir__skip_to_char (drop p buf) (CHR ''='') = sir__skip_to_char (drop p buf) (CHR '':''))
        = (CHR ''='' \<notin> set (c_string buf p) \<and> CHR '':'' \<notin> set (c_string buf p))"
    unfolding a b using la lb neq fa fb
    by (metis le_neq_implies_less)
qed

subsection \<open>Keys of a reopened section\<close>

lemma load_reopened:
  "sir_load_from_str ''[a]\<newline>[b]\<newline>k=1\<newline>[a]\<newline>k=2\<newline>'' 0 = Some doc_reopened"
  by code_simp

lemma lookup_reopened:
  "fst (sir_section_str doc_reopened (Some ''a'') (Some ''k'')) = None"
  "fst (sir_section_str doc_reopened (Some ''b'') (Some ''k'')) = Some ''1''"
  by code_simp+

text \<open>
  Claim C1. The text has the header \<open>[a]\<close>, then \<open>[b]\<close> with the key
  \<open>k=1\<close>, then \<open>[a]\<close> again with the key \<open>k=2\<close>. The open section
  at the last line is \<open>a\<close>, which holds no key, but the duplicate check
  walks \<^verbatim>\<open>ini->sections[section_index]\<close>, the section created last
  (\<open>b\<close>), not \<^verbatim>\<open>ini->sections[prev_index]\<close>: it takes \<open>k=2\<close> for
  a duplicate of the \<open>k\<close> of \<open>b\<close> and drops it. One key is stored, and
  the lookup of \<open>k\<close> in \<open>a\<close> finds nothing.
\<close>

theorem duplicate_scan_walks_last_created_section:
  "sir_load_from_str ''[a]\<newline>[b]\<newline>k=1\<newline>[a]\<newline>k=2\<newline>'' 0 = Some doc_reopened
   \<and> key_count doc_reopened = 1
   \<and> fst (sir_section_str doc_reopened (Some ''a'') (Some ''k'')) = None
   \<and> fst (sir_section_str doc_reopened (Some ''b'') (Some ''k'')) = Some ''1''"
proof -
  have "key_count doc_reopened = 1" by (simp add: doc_reopened_def)
  then show ?thesis by (intro conjI load_reopened lookup_reopened)
qed

lemma load_merged:
  "sir_load_from_str ''[a]\<newline>x=1\<newline>[b]\<newline>y=2\<newline>[a]\<newline>y=3\<newline>'' 0 = Some doc_merged"
  by code_simp

lemma lookup_merged:
  "map (deref doc_merged) (map the (section_names doc_merged)) = [''global'', ''a'', ''b'']"
  "fst (sir_section_str doc_merged (Some ''a'') (Some ''x'')) = Some ''1''"
  "fst (sir_section_str doc_merged (Some ''a'') (Some ''y'')) = None"
  by code_simp+

text \<open>
  Claim C3. The text is \<open>[a] x=1 [b] y=2 [a] y=3\<close>, one item a line. The
  second \<open>[a]\<close> is recognised among all section names seen so far: there
  is one section named \<open>a\<close> and it holds two ranges. But the key \<open>y\<close>
  written under the second \<open>[a]\<close> is not found by the lookup in \<open>a\<close>:
  the duplicate check has compared it with the keys of \<open>b\<close> and dropped it,
  and the second range of \<open>a\<close> is empty.
\<close>

theorem reopened_section_loses_key:
  "sir_load_from_str ''[a]\<newline>x=1\<newline>[b]\<newline>y=2\<newline>[a]\<newline>y=3\<newline>'' 0 = Some doc_merged
   \<and> map (deref doc_merged) (map the (section_names doc_merged)) = [''global'', ''a'', ''b'']
   \<and> section_at doc_merged 1 =
        [\<lparr>range_start = 0, range_end = 1\<rparr>, \<lparr>range_start = 2, range_end = 2\<rparr>]
   \<and> fst (sir_section_str doc_merged (Some ''a'') (Some ''x'')) = Some ''1''
   \<and> fst (sir_section_str doc_merged (Some ''a'') (Some ''y'')) = None"
proof -
  have "section_at doc_merged 1 =
          [\<lparr>range_start = 0, range_end = 1\<rparr>, \<lparr>range_start = 2, range_end = 2\<rparr>]"
    by (simp add: doc_merged_def section_at_def)
  then show ?thesis by (intro conjI load_merged lookup_merged)
qed

lemma load_foo_bar:
  "sir_load_from_str foo_bar_text 0 = Some doc_first_wins"
  "sir_load_from_str foo_bar_text SIR_OPTION_OVERRIDE_DUPLICATE_KEYS = Some doc_override"
  by code_simp+

lemma lookup_foo_bar:
  "fst (sir_section_str doc_first_wins (Some ''a'') (Some ''key'')) = None"
  "fst (sir_section_str doc_override (Some ''a'') (Some ''key'')) = None"
  "fst (sir_section_str doc_first_wins (Some ''b'') (Some ''key'')) = Some ''zzz''"
  "fst (sir_section_str doc_override (Some ''b'') (Some ''key'')) = Some ''bar''"
  by code_simp+

text \<open>
  Claim C4. The text is \<open>[a] [b] key=zzz [a] key=foo key=bar\<close>, one item a
  line: \<open>key=foo\<close> and \<open>key=bar\<close> follow each other in section \<open>a\<close>.
  Under the default policy the lookup of \<open>key\<close> in \<open>a\<close> does not return
  \<open>foo\<close>, and under \<^verbatim>\<open>SIR_OPTION_OVERRIDE_DUPLICATE_KEYS\<close> it does
  not return \<open>bar\<close>: both lines are taken for duplicates of the \<open>key\<close> of
  \<open>b\<close>, the section created last. The default policy drops both; the
  override policy overwrites the value of \<open>b\<close>'s key with \<open>bar\<close>.
\<close>

theorem duplicate_policy_in_reopened_section:
  "sir_load_from_str foo_bar_text 0 = Some doc_first_wins
   \<and> sir_load_from_str foo_bar_text SIR_OPTION_OVERRIDE_DUPLICATE_KEYS = Some doc_override
   \<and> fst (sir_section_str doc_first_wins (Some ''a'') (Some ''key'')) = None
   \<and> fst (sir_section_str doc_override (Some ''a'') (Some ''key'')) = None
   \<and> fst (sir_section_str doc_first_wins (Some ''b'') (Some ''key'')) = Some ''zzz''
   \<and> fst (sir_section_str doc_override (Some ''b'') (Some ''key'')) = Some ''bar''"
  by (intro conjI load_foo_bar lookup_foo_bar)

subsection \<open>Booleans with errors disabled\<close>

lemma load_true_no_errors:
  "sir_load_from_str ''k=true\<newline>'' SIR_OPTION_DISABLE_ERRORS = Some doc_true_no_errors"
  by code_simp

lemma bool_true_no_errors:
  "fst (sir_section_bool c_strtol doc_true_no_errors None (Some ''k'')) = 0"
  "fst (sir_section_str doc_true_no_errors None (Some ''k'')) = Some ''true''"
  "c_strtol ''true'' = No_Conversion"
  by code_simp+

text \<open>
  Claim C9. With \<^verbatim>\<open>SIR_OPTION_DISABLE_ERRORS\<close> the value \<open>true\<close>
  is read as 0. \<^verbatim>\<open>sir_section_bool\<close> tells a failed number
  conversion by \<^verbatim>\<open>sir_has_error\<close>, which is always false when errors
  are disabled, so it returns \<^verbatim>\<open>l != 0\<close> for the 0 that the failed
  \<^verbatim>\<open>sir_section_long\<close> returned and never compares the value with the
  literals.
\<close>

theorem bool_true_reads_false_without_errors:
  "sir_load_from_str ''k=true\<newline>'' SIR_OPTION_DISABLE_ERRORS = Some doc_true_no_errors
   \<and> fst (sir_section_str doc_true_no_errors None (Some ''k'')) = Some ''true''
   \<and> c_strtol ''true'' = No_Conversion
   \<and> fst (sir_section_bool c_strtol doc_true_no_errors None (Some ''k'')) = 0"
  by (intro conjI load_true_no_errors bool_true_no_errors)

end
